theory Spec2Isabelle
  imports Main "HOL-Library.Sublist"
begin

section \<open>Python string primitives used by the analyzer\<close>

text \<open>
  A Python \<open>str\<close> is modelled as a \<open>string\<close>, a list of 8-bit characters read as the
  code points 0 to 255. On these code points the whitespace and case tables below are
  Python's: \<open>str.isspace\<close> (which \<open>str.split\<close>, \<open>str.strip\<close> and the pattern \<open>\s\<close>
  use) accepts 9-13, 28-32, 133 and 160; \<open>str.lower\<close> adds 32 to \<open>A-Z\<close> and to 192-222
  except 215; \<open>str.upper\<close> subtracts 32 from \<open>a-z\<close> and from 224-254 except 247, turns 223
  into \<open>SS\<close>, 181 into the code point 924 and 255 into the code point 376. The result of
  \<open>str.upper\<close> can thus leave the 8-bit range, and is a list of code points.
\<close>

type_synonym codepoints = "nat list"

definition cps :: "string \<Rightarrow> codepoints" where
  "cps s = map of_char s"

definition isspace :: "char \<Rightarrow> bool" where
  "isspace c =
     (let n = (of_char c :: nat)
      in (9 \<le> n \<and> n \<le> 13) \<or> (28 \<le> n \<and> n \<le> 32) \<or> n = 133 \<or> n = 160)"

definition isupper :: "char \<Rightarrow> bool" where
  "isupper c =
     (let n = (of_char c :: nat)
      in (65 \<le> n \<and> n \<le> 90) \<or> (192 \<le> n \<and> n \<le> 222 \<and> n \<noteq> 215))"

text \<open>The characters whose upper-case form is the character 32 places before them.\<close>

definition islower32 :: "char \<Rightarrow> bool" where
  "islower32 c =
     (let n = (of_char c :: nat)
      in (97 \<le> n \<and> n \<le> 122) \<or> (224 \<le> n \<and> n \<le> 254 \<and> n \<noteq> 247))"

text \<open>The cased characters: the letters, and the code points 170, 181 and 186.\<close>

definition iscased :: "char \<Rightarrow> bool" where
  "iscased c =
     (let n = (of_char c :: nat)
      in isupper c \<or> islower32 c \<or> n = 170 \<or> n = 181 \<or> n = 186 \<or> n = 223 \<or> n = 255)"

definition lower_char :: "char \<Rightarrow> char" where
  "lower_char c = (if isupper c then char_of (of_char c + (32::nat)) else c)"

text \<open>\<open>c.upper()\<close>, as code points.\<close>

definition upper_char :: "char \<Rightarrow> codepoints" where
  "upper_char c =
     (let n = (of_char c :: nat)
      in if n = 223 then [83, 83]
         else if n = 181 then [924]
         else if n = 255 then [376]
         else if islower32 c then [n - 32]
         else [n])"

text \<open>The title-case form of a character. It is \<open>c.upper()\<close> except for 223, which
  becomes \<open>Ss\<close>. The title-case forms of 181 and 255 lie outside the 8-bit range; these
  two characters are left as they are. \<open>title\<close> is applied to the vocabulary terms, to the
  profile keywords and to a job position that is a key of the profile table only, which
  are ASCII (\<open>title_arguments_ascii\<close> below).\<close>

definition title_char :: "char \<Rightarrow> string" where
  "title_char c =
     (if of_char c = (223::nat) then ''Ss''
      else if islower32 c then [char_of (of_char c - (32::nat))]
      else [c])"

text \<open>\<open>s.lower()\<close>\<close>

definition lower :: "string \<Rightarrow> string" where
  "lower s = map lower_char s"

text \<open>\<open>s.title()\<close>: a character takes its title-case form when the character before it
  is not cased, and its lower-case form otherwise.\<close>

fun title_from :: "bool \<Rightarrow> string \<Rightarrow> string" where
  "title_from prev_cased [] = []"
| "title_from prev_cased (c # cs) =
     (if prev_cased then [lower_char c] else title_char c) @ title_from (iscased c) cs"

definition title :: "string \<Rightarrow> string" where
  "title s = title_from False s"

text \<open>\<open>s.strip()\<close>: whitespace removed at both ends.\<close>

definition lstrip :: "string \<Rightarrow> string" where
  "lstrip s = dropWhile isspace s"

definition rstrip :: "string \<Rightarrow> string" where
  "rstrip s = rev (dropWhile isspace (rev s))"

definition strip :: "string \<Rightarrow> string" where
  "strip s = rstrip (lstrip s)"

text \<open>\<open>s.split()\<close>: the maximal runs of non-whitespace characters, in order;
  \<open>cur\<close> is the word being read.\<close>

fun split_from :: "string \<Rightarrow> string \<Rightarrow> string list" where
  "split_from cur [] = (if cur = [] then [] else [cur])"
| "split_from cur (c # cs) =
     (if isspace c then (if cur = [] then split_from [] cs else cur # split_from [] cs)
      else split_from (cur @ [c]) cs)"

definition split :: "string \<Rightarrow> string list" where
  "split s = split_from [] s"

text \<open>\<open>s.split(sep)\<close> for a one-character separator: the pieces between the
  separators, empty pieces included; the result is never empty.\<close>

fun split_on :: "char \<Rightarrow> string \<Rightarrow> string list" where
  "split_on sep [] = [[]]"
| "split_on sep (c # cs) =
     (if c = sep then [] # split_on sep cs
      else (case split_on sep cs of
              [] \<Rightarrow> [[c]]
            | l # ls \<Rightarrow> (c # l) # ls))"

text \<open>\<open>s.startswith(p)\<close> and the substring test \<open>p in s\<close>.\<close>

fun startswith :: "string \<Rightarrow> string \<Rightarrow> bool" where
  "startswith s [] = True"
| "startswith [] (p # ps) = False"
| "startswith (c # cs) (p # ps) = (c = p \<and> startswith cs ps)"

fun str_in :: "string \<Rightarrow> string \<Rightarrow> bool" where
  "str_in p [] = (p = [])"
| "str_in p (c # cs) = (startswith (c # cs) p \<or> str_in p cs)"

text \<open>\<open>sep.join(xs)\<close>\<close>

fun join :: "string \<Rightarrow> string list \<Rightarrow> string" where
  "join sep [] = []"
| "join sep [x] = x"
| "join sep (x # y # ys) = x @ sep @ join sep (y # ys)"

text \<open>\<open>s.replace(a, b)\<close> for one-character \<open>a\<close> and \<open>b\<close>.\<close>

definition replace_char :: "char \<Rightarrow> char \<Rightarrow> string \<Rightarrow> string" where
  "replace_char a b s = map (\<lambda>c. if c = a then b else c) s"

text \<open>\<open>re.sub(r'\s+', ' ', s)\<close>: every maximal run of whitespace becomes one space.\<close>

function sub_ws :: "string \<Rightarrow> string" where
  "sub_ws [] = []"
| "sub_ws (c # cs) =
     (if isspace c then CHR '' '' # sub_ws (dropWhile isspace cs) else c # sub_ws cs)"
  by pat_completeness auto
termination
  by (relation "measure length") (auto simp: length_dropWhile_le less_Suc_eq_le)


section \<open>The analyzer's reference data\<close>

definition skill_keywords :: "string list" where
  "skill_keywords =
    [''python'', ''java'', ''javascript'', ''c++'', ''c#'', ''ruby'', ''php'', ''swift'',
     ''kotlin'', ''go'', ''rust'', ''scala'', ''r'', ''matlab'', ''sql'', ''typescript'',
     ''perl'', ''shell'', ''bash'',
     ''html'', ''css'', ''react'', ''angular'', ''vue'', ''node.js'', ''express'',
     ''django'', ''flask'', ''spring'', ''asp.net'', ''laravel'', ''rails'', ''bootstrap'',
     ''jquery'', ''ajax'',
     ''mysql'', ''postgresql'', ''mongodb'', ''redis'', ''oracle'', ''sql server'',
     ''firebase'', ''cassandra'', ''elasticsearch'', ''dynamodb'',
     ''aws'', ''azure'', ''google cloud'', ''gcp'', ''docker'', ''kubernetes'',
     ''terraform'', ''jenkins'', ''ansible'', ''chef'', ''puppet'',
     ''pandas'', ''numpy'', ''scikit-learn'', ''tensorflow'', ''pytorch'', ''keras'',
     ''matplotlib'', ''seaborn'', ''plotly'', ''nltk'', ''spacy'', ''opencv'',
     ''hadoop'', ''spark'', ''hive'', ''kafka'', ''airflow'',
     ''git'', ''linux'', ''unix'', ''ubuntu'', ''centos'', ''agile'', ''scrum'', ''jira'',
     ''confluence'', ''excel'', ''tableau'', ''power bi'', ''sap'', ''erp'']"

definition job_keywords :: "(string \<times> string list) list" where
  "job_keywords =
    [(''software-engineer'',
        [''programming'', ''coding'', ''software development'', ''debugging'', ''testing'',
         ''algorithms'', ''data structures'', ''oop'', ''object oriented'',
         ''design patterns'', ''version control'', ''git'', ''api'', ''rest'',
         ''microservices'']),
     (''data-scientist'',
        [''machine learning'', ''deep learning'', ''neural networks'', ''regression'',
         ''classification'', ''clustering'', ''nlp'', ''natural language processing'',
         ''statistical analysis'', ''data visualization'', ''pandas'', ''numpy'', ''r'',
         ''python'', ''tensorflow'', ''pytorch'', ''scikit-learn'']),
     (''web-developer'',
        [''html'', ''css'', ''javascript'', ''react'', ''angular'', ''vue'', ''node.js'',
         ''frontend'', ''backend'', ''responsive design'', ''cross-browser compatibility'',
         ''rest api'', ''json'', ''ajax'', ''bootstrap'', ''jquery'']),
     (''product-manager'',
        [''product strategy'', ''roadmap'', ''market research'', ''user stories'',
         ''agile'', ''scrum'', ''sprint'', ''product lifecycle'', ''ux'', ''ui'',
         ''stakeholder management'', ''prioritization'', ''metrics'', ''kpi'']),
     (''ui-ux-designer'',
        [''user experience'', ''user interface'', ''wireframing'', ''prototyping'',
         ''figma'', ''sketch'', ''adobe xd'', ''usability testing'', ''accessibility'',
         ''design thinking'', ''user research'', ''information architecture'',
         ''visual design'', ''typography'', ''color theory''])]"


section \<open>Scoring\<close>

text \<open>\<open>calculate_score\<close>, statement by statement: the running \<open>score\<close> after each of the
  four \<open>if/elif/else\<close> chains, then the final \<open>min(max(score, 0), 100)\<close>.\<close>

definition keyword_count :: "string \<Rightarrow> nat" where
  "keyword_count text =
     length (filter (\<lambda>keyword. str_in (lower keyword) (lower text)) skill_keywords)"

definition calculate_score :: "string \<Rightarrow> string list \<Rightarrow> string list \<Rightarrow> int" where
  "calculate_score text skills experiences =
     (let score = 0;
          word_count = length (split text);
          score = (if 200 \<le> word_count \<and> word_count \<le> 800 then score + 30
                   else if word_count > 100 then score + 20
                   else score + 10);
          score = (if length skills \<ge> 10 then score + 25
                   else if length skills \<ge> 5 then score + 15
                   else score + 5);
          score = (if length experiences \<ge> 5 then score + 25
                   else if length experiences \<ge> 2 then score + 15
                   else score + 5);
          score = (if keyword_count text \<ge> 15 then score + 20
                   else if keyword_count text \<ge> 8 then score + 10
                   else score + 5)
      in min (max score 0) 100)"

text \<open>The four bands as the specification tabulates them.\<close>

definition length_points :: "nat \<Rightarrow> int" where
  "length_points n = (if 200 \<le> n \<and> n \<le> 800 then 30 else if n > 100 then 20 else 10)"

definition skill_points :: "nat \<Rightarrow> int" where
  "skill_points n = (if n \<ge> 10 then 25 else if n \<ge> 5 then 15 else 5)"

definition experience_points :: "nat \<Rightarrow> int" where
  "experience_points n = (if n \<ge> 5 then 25 else if n \<ge> 2 then 15 else 5)"

definition density_points :: "nat \<Rightarrow> int" where
  "density_points n = (if n \<ge> 15 then 20 else if n \<ge> 8 then 10 else 5)"



text \<open>Position \<open>i\<close> of a text starts a word when it holds a character that is no
  whitespace and the position before it holds whitespace; \<open>at_start\<close> says whether the
  first position counts as following whitespace, as it does for a whole text. The number
  of words of a text is the number of positions that start one.\<close>

definition word_start :: "bool \<Rightarrow> string \<Rightarrow> nat \<Rightarrow> bool" where
  "word_start at_start text i =
     (\<not> isspace (text ! i) \<and> (if i = 0 then at_start else isspace (text ! (i - 1))))"

definition word_count :: "string \<Rightarrow> nat" where
  "word_count text = length (filter (word_start True text) [0..<length text])"

text \<open>A vocabulary term occurs in a text, case ignored, when some contiguous piece of the
  text has the lower-case form of the term; \<open>vocabulary_hits\<close> counts the terms that
  do.\<close>

definition occurs_ignoring_case :: "string \<Rightarrow> string \<Rightarrow> bool" where
  "occurs_ignoring_case kw text =
     (\<exists>before piece after. text = before @ piece @ after \<and> lower piece = lower kw)"

definition vocabulary_hits :: "string \<Rightarrow> nat" where
  "vocabulary_hits text =
     length (filter (\<lambda>kw. occurs_ignoring_case kw text) skill_keywords)"


section \<open>The analyzer and its optional collaborators\<close>

text \<open>
  The spaCy document is a sequence of tokens, of which \<open>preprocess_text\<close> reads four
  attributes. The named-entity pipeline returns a list of entities, or raises; whatever it
  raises is caught by \<open>extract_skills\<close>. Either collaborator may be absent (\<open>None\<close>).
\<close>

record token =
  token_lemma :: string
  is_stop :: bool
  is_punct :: bool
  is_alpha :: bool

record entity =
  word :: string
  entity_group :: string

datatype error = NerFailure

record analyzer =
  nlp :: "(string \<Rightarrow> token list) option"
  ner_pipeline :: "(string \<Rightarrow> error + entity list) option"


section \<open>Preprocessing\<close>

definition preprocess_text :: "analyzer \<Rightarrow> string \<Rightarrow> string" where
  "preprocess_text self text =
     (case nlp self of
        Some run \<Rightarrow>
          (let doc = run text;
               tokens = map (\<lambda>t. lower (token_lemma t))
                          (filter (\<lambda>t. \<not> is_stop t \<and> \<not> is_punct t \<and> is_alpha t) doc)
           in join '' '' tokens)
      | None \<Rightarrow>
          (let text = lower text;
               text = sub_ws text
           in strip text))"


section \<open>Skill extraction\<close>

text \<open>The keyword loop: the title-cased vocabulary terms found in the processed text,
  in vocabulary order.\<close>

definition keyword_matches :: "string \<Rightarrow> string list" where
  "keyword_matches processed_text =
     map title (filter (\<lambda>skill. str_in (lower skill) processed_text) skill_keywords)"

definition org_entities :: "entity list \<Rightarrow> string list" where
  "org_entities ner_results =
     map word (filter (\<lambda>e. entity_group e = ''ORG'') ner_results)"

text \<open>\<open>found_skills\<close> before deduplication. An exception of the pipeline leaves the list
  as the keyword loop built it.\<close>

definition found_skills :: "analyzer \<Rightarrow> string \<Rightarrow> string list" where
  "found_skills self text =
     (let processed_text = lower (preprocess_text self text);
          found = keyword_matches processed_text
      in case ner_pipeline self of
           None \<Rightarrow> found
         | Some run \<Rightarrow>
             (case run text of
                Inl e \<Rightarrow> found
              | Inr ner_results \<Rightarrow> found @ org_entities ner_results))"

text \<open>The deduplication loop with its \<open>seen\<close> set and its \<open>unique_skills\<close> list.\<close>

fun dedup_loop :: "string set \<Rightarrow> string list \<Rightarrow> string list \<Rightarrow> string list" where
  "dedup_loop seen unique_skills [] = unique_skills"
| "dedup_loop seen unique_skills (skill # rest) =
     (if skill \<notin> seen then dedup_loop (insert skill seen) (unique_skills @ [skill]) rest
      else dedup_loop seen unique_skills rest)"

definition extract_skills :: "analyzer \<Rightarrow> string \<Rightarrow> string list" where
  "extract_skills self text = take 20 (dedup_loop {} [] (found_skills self text))"

text \<open>The entries of a list that occur there for the first time, in order.\<close>

definition first_occurrences :: "'a list \<Rightarrow> 'a list" where
  "first_occurrences xs =
     map (\<lambda>i. xs ! i) (filter (\<lambda>i. xs ! i \<notin> set (take i xs)) [0..<length xs])"

text \<open>Identity of two skills up to surrounding whitespace and case.\<close>

definition same_skill :: "string \<Rightarrow> string \<Rightarrow> bool" where
  "same_skill a b = (lower (strip a) = lower (strip b))"


section \<open>Experience extraction\<close>

definition action_verbs :: "string list" where
  "action_verbs =
    [''managed'', ''developed'', ''created'', ''implemented'', ''designed'', ''optimized'',
     ''led'', ''collaborated'', ''analyzed'', ''improved'', ''increased'', ''reduced'',
     ''streamlined'', ''automated'', ''mentored'', ''trained'', ''coordinated'']"

text \<open>The loop over the lines, with the list \<open>experiences\<close> built so far.\<close>

fun experiences_loop :: "codepoints list \<Rightarrow> string list \<Rightarrow> codepoints list" where
  "experiences_loop experiences [] = experiences"
| "experiences_loop experiences (line # lines) =
     (let line_clean = lower (strip line) in
      if length line_clean > 10 \<and> list_ex (\<lambda>verb. str_in verb line_clean) action_verbs
      then (case strip line of
              [] \<Rightarrow> experiences_loop experiences lines
            | c # cs \<Rightarrow> experiences_loop (experiences @ [upper_char c @ cps cs]) lines)
      else experiences_loop experiences lines)"

definition extract_experiences :: "string \<Rightarrow> codepoints list" where
  "extract_experiences text = take 10 (experiences_loop [] (split_on (CHR 0x0A) text))"

text \<open>The test a line passes to be kept, and the form in which it is emitted.\<close>

definition keeps_line :: "string \<Rightarrow> bool" where
  "keeps_line line =
     (length (lower (strip line)) > 10
      \<and> (\<exists>verb \<in> set action_verbs. sublist verb (lower (strip line))))"

definition capitalize_first :: "string \<Rightarrow> codepoints" where
  "capitalize_first s = (case s of [] \<Rightarrow> [] | c # cs \<Rightarrow> upper_char c @ cps cs)"


section \<open>Recommendations\<close>

definition weak_action_verbs :: "string list" where
  "weak_action_verbs = [''helped'', ''assisted'', ''worked on'', ''was responsible for'']"

definition strong_action_verbs :: "string list" where
  "strong_action_verbs =
    [''managed'', ''developed'', ''created'', ''implemented'', ''optimized'', ''led'']"

definition metrics_keywords :: "string list" where
  "metrics_keywords =
    [''%'', ''increased'', ''decreased'', ''improved'', ''reduced'', ''grew'', ''$'', ''saved'']"

text \<open>The generator \<open>sum(1 for exp in experiences for verb in verbs if verb in exp.lower())\<close>.\<close>

definition count_hits :: "string list \<Rightarrow> string list \<Rightarrow> nat" where
  "count_hits verbs experiences =
     sum_list [1. exp \<leftarrow> experiences, verb \<leftarrow> verbs, str_in verb (lower exp)]"

text \<open>The fixed recommendation texts.\<close>

definition skills_tip :: string where
  "skills_tip = ''Add more technical skills and certifications relevant to your field.''"

definition achievements_tip :: string where
  "achievements_tip =
     ''Include more quantifiable achievements with specific metrics (e.g., 'Increased sales by 25%').''"

definition verbs_tip :: string where
  "verbs_tip =
     ''Use stronger action verbs to describe your accomplishments (e.g., 'Led' instead of 'Helped').''"

definition metrics_tip :: string where
  "metrics_tip =
     ''Include more quantifiable results to demonstrate impact (e.g., 'Reduced processing time by 40%').''"

definition summary_tip :: string where
  "summary_tip = ''Add a professional summary or objective at the beginning of your resume.''"

definition fallback_tips :: "string list" where
  "fallback_tips =
    [''Review your resume for typos and grammatical errors.'',
     ''Ensure consistent formatting throughout the document.'',
     ''Tailor your resume for each job application.'']"

text \<open>The formatted keyword-gap sentence.\<close>

definition keywords_tip :: "string \<Rightarrow> string list \<Rightarrow> string" where
  "keywords_tip job_position missing_keywords =
     ''Consider adding these keywords relevant to ''
       @ title (replace_char (CHR ''-'') (CHR '' '') job_position)
       @ '': '' @ join '', '' (take 5 missing_keywords)"

text \<open>
  \<open>generate_recommendations\<close>, statement by statement, with the list \<open>recommendations\<close>
  passed along. The test \<open>metrics_count < len(experiences) / 2\<close> compares an integer with
  the exact half of an integer, which is \<open>2 * metrics_count < len(experiences)\<close>. An absent
  or empty \<open>job_position\<close> is falsy, and a tag that is no key of \<open>job_keywords\<close> fails the
  membership test.
\<close>

definition generate_recommendations ::
  "string \<Rightarrow> string list \<Rightarrow> string list \<Rightarrow> string option \<Rightarrow> string list" where
  "generate_recommendations text skills experiences job_position =
     (let recommendations = [];
          recommendations =
            (if length skills < 8 then recommendations @ [skills_tip] else recommendations);
          recommendations =
            (if length experiences < 4 then recommendations @ [achievements_tip]
             else recommendations);
          weak_count = count_hits weak_action_verbs experiences;
          strong_count = count_hits strong_action_verbs experiences;
          recommendations =
            (if weak_count > strong_count then recommendations @ [verbs_tip]
             else recommendations);
          metrics_count = count_hits metrics_keywords experiences;
          recommendations =
            (if 2 * metrics_count < length experiences then recommendations @ [metrics_tip]
             else recommendations);
          recommendations =
            (case job_position of
               None \<Rightarrow> recommendations
             | Some jp \<Rightarrow>
                 (if jp = [] then recommendations
                  else (case map_of job_keywords jp of
                          None \<Rightarrow> recommendations
                        | Some keywords \<Rightarrow>
                            (let missing_keywords =
                                   map title
                                     (filter (\<lambda>keyword. \<not> str_in (lower keyword) (lower text))
                                        keywords)
                             in if missing_keywords \<noteq> []
                                then recommendations @ [keywords_tip jp missing_keywords]
                                else recommendations))));
          recommendations =
            (if \<not> str_in ''objective'' (lower text) \<and> \<not> str_in ''summary'' (lower text)
             then recommendations @ [summary_tip] else recommendations)
      in if recommendations = [] then recommendations @ fallback_tips else recommendations)"

text \<open>The tips each rule contributes, in the order of the rules.\<close>

definition job_tips :: "string \<Rightarrow> string option \<Rightarrow> string list" where
  "job_tips text job_position =
     (case job_position of
        None \<Rightarrow> []
      | Some jp \<Rightarrow>
          (if jp = [] then []
           else (case map_of job_keywords jp of
                   None \<Rightarrow> []
                 | Some keywords \<Rightarrow>
                     (let missing_keywords =
                            map title
                              (filter (\<lambda>keyword. \<not> str_in (lower keyword) (lower text))
                                 keywords)
                      in if missing_keywords \<noteq> [] then [keywords_tip jp missing_keywords]
                         else []))))"

definition rule_tips :: "string \<Rightarrow> string list \<Rightarrow> string list \<Rightarrow> string option \<Rightarrow> string list" where
  "rule_tips text skills experiences job_position =
     (if length skills < 8 then [skills_tip] else [])
     @ (if length experiences < 4 then [achievements_tip] else [])
     @ (if count_hits weak_action_verbs experiences > count_hits strong_action_verbs experiences
        then [verbs_tip] else [])
     @ (if 2 * count_hits metrics_keywords experiences < length experiences
        then [metrics_tip] else [])
     @ job_tips text job_position
     @ (if \<not> str_in ''objective'' (lower text) \<and> \<not> str_in ''summary'' (lower text)
        then [summary_tip] else [])"

text \<open>The number of experience lines that contain at least one of the verbs.\<close>

definition lines_with :: "string list \<Rightarrow> string list \<Rightarrow> nat" where
  "lines_with verbs experiences =
     length (filter (\<lambda>exp. list_ex (\<lambda>verb. str_in verb (lower exp)) verbs) experiences)"

text \<open>Whitespace-normal strings: every whitespace character is a space, and is followed
  by a character that is not whitespace or by nothing.\<close>

fun ws_normal :: "string \<Rightarrow> bool" where
  "ws_normal [] = True"
| "ws_normal (c # cs) =
     ((isspace c \<longrightarrow> c = CHR '' '' \<and> (case cs of [] \<Rightarrow> True | d # ds \<Rightarrow> \<not> isspace d))
      \<and> ws_normal cs)"



text \<open>The entries the entity pipeline contributes: none when it is absent or raises.\<close>

definition ner_skills :: "analyzer \<Rightarrow> string \<Rightarrow> string list" where
  "ner_skills self text =
     (case ner_pipeline self of
        None \<Rightarrow> []
      | Some run \<Rightarrow> (case run text of Inl e \<Rightarrow> [] | Inr ner_results \<Rightarrow> org_entities ner_results))"

text \<open>The identity the specification's data model gives a skill: trimmed and
  case-folded.\<close>

definition skill_key :: "string \<Rightarrow> string" where
  "skill_key s = lower (strip s)"

text \<open>A line that, trimmed and lower-cased, starts with an action verb.\<close>

definition begins_with_action_verb :: "string \<Rightarrow> bool" where
  "begins_with_action_verb line =
     list_ex (\<lambda>verb. startswith (lower (strip line)) verb) action_verbs"

text \<open>Sample collaborators: no collaborator at all, and an entity pipeline that tags the
  upper-case word \<open>PYTHON\<close> as an organisation.\<close>

definition bare_analyzer :: analyzer where
  "bare_analyzer = \<lparr>nlp = None, ner_pipeline = None\<rparr>"

definition shouting_ner :: "string \<Rightarrow> error + entity list" where
  "shouting_ner text = Inr [\<lparr>word = ''PYTHON'', entity_group = ''ORG''\<rparr>]"

definition ner_analyzer :: analyzer where
  "ner_analyzer = \<lparr>nlp = None, ner_pipeline = Some shouting_ner\<rparr>"


section \<open>The substring test\<close>

text \<open>\<open>startswith\<close> and \<open>str_in\<close> are the library's \<open>prefix\<close> and \<open>sublist\<close>
  (a contiguous sublist).\<close>

lemma startswith_prefix: "startswith s p \<longleftrightarrow> prefix p s"
  by (induction s p rule: startswith.induct) auto

lemma str_in_sublist: "str_in p s \<longleftrightarrow> sublist p s"
  by (induction s) (auto simp: startswith_prefix sublist_Cons_right)


section \<open>Words and vocabulary hits\<close>

text \<open>\<open>len(text.split())\<close> is the number of word starts, and the keyword loop of
  \<open>calculate_score\<close> counts the vocabulary terms that occur in the text, case
  ignored.\<close>

lemma length_filter_upt_Suc:
  "length (filter P [0..<Suc n]) =
     (if P 0 then 1 else 0) + length (filter (\<lambda>i. P (Suc i)) [0..<n])"
proof -
  have "[0..<Suc n] = 0 # map Suc [0..<n]"
    by (simp add: upt_conv_Cons map_Suc_upt del: upt_Suc)
  then show ?thesis
    by (simp add: filter_map comp_def del: upt_Suc)
qed

lemma word_start_Cons_0: "word_start b (c # cs) 0 = (\<not> isspace c \<and> b)"
  by (simp add: word_start_def)

lemma word_start_Cons_Suc: "word_start b (c # cs) (Suc i) = word_start (isspace c) cs i"
  by (cases i) (simp_all add: word_start_def)

lemma word_starts_Cons:
  "length (filter (word_start b (c # cs)) [0..<length (c # cs)])
     = (if \<not> isspace c \<and> b then 1 else 0)
       + length (filter (word_start (isspace c) cs) [0..<length cs])"
proof -
  have "length (filter (word_start b (c # cs)) [0..<Suc (length cs)])
      = (if word_start b (c # cs) 0 then 1 else 0)
        + length (filter (\<lambda>i. word_start b (c # cs) (Suc i)) [0..<length cs])"
    by (rule length_filter_upt_Suc)
  then show ?thesis
    by (simp only: word_start_Cons_0 word_start_Cons_Suc length_Cons)
qed

lemma length_split_from:
  "length (split_from cur s) =
     (if cur = [] then 0 else 1)
     + length (filter (word_start (cur = []) s) [0..<length s])"
proof (induction s arbitrary: cur)
  case Nil
  then show ?case by simp
next
  case (Cons c cs)
  show ?case
  proof (cases "isspace c")
    case True
    have "length (split_from cur (c # cs)) = (if cur = [] then 0 else 1) + length (split_from [] cs)"
      using True by simp
    also have "length (split_from [] cs) = length (filter (word_start True cs) [0..<length cs])"
      using Cons.IH [of "[]"] by simp
    finally show ?thesis
      using True by (simp only: word_starts_Cons) simp
  next
    case False
    have "length (split_from cur (c # cs)) = length (split_from (cur @ [c]) cs)"
      using False by simp
    also have "\<dots> = 1 + length (filter (word_start False cs) [0..<length cs])"
      using Cons.IH [of "cur @ [c]"] by simp
    finally show ?thesis
      using False by (simp only: word_starts_Cons) simp
  qed
qed

lemma length_split: "length (split s) = word_count s"
  using length_split_from [of "[]" s] by (simp add: split_def word_count_def)

lemma lower_append: "lower (xs @ ys) = lower xs @ lower ys"
  by (simp add: lower_def)

lemma str_in_lower_occurs:
  "str_in (lower kw) (lower s) \<longleftrightarrow> occurs_ignoring_case kw s"
proof
  assume "str_in (lower kw) (lower s)"
  then have "sublist (lower kw) (lower s)" by (simp only: str_in_sublist)
  then obtain ps ss where "lower s = ps @ lower kw @ ss"
    unfolding sublist_def by (elim exE)
  then have e: "map lower_char s = ps @ (lower kw @ ss)" by (simp add: lower_def)
  have "\<exists>us vs. s = us @ vs \<and> ps = map lower_char us \<and> lower kw @ ss = map lower_char vs"
    using e by (rule map_eq_append_conv [THEN iffD1])
  then obtain before rest where s: "s = before @ rest"
    and r: "lower kw @ ss = map lower_char rest"
    by (elim exE conjE)
  have "\<exists>us vs. rest = us @ vs \<and> lower kw = map lower_char us \<and> ss = map lower_char vs"
    using r by (rule append_eq_map_conv [THEN iffD1])
  then obtain piece after where p: "rest = piece @ after" and l: "lower kw = map lower_char piece"
    by (elim exE conjE)
  have "s = before @ piece @ after \<and> lower piece = lower kw"
    using s p l by (simp add: lower_def)
  then show "occurs_ignoring_case kw s"
    unfolding occurs_ignoring_case_def by (intro exI)
next
  assume "occurs_ignoring_case kw s"
  then obtain before piece after where s: "s = before @ piece @ after"
    and l: "lower piece = lower kw"
    unfolding occurs_ignoring_case_def by (elim exE conjE)
  have "lower s = lower before @ lower kw @ lower after"
    by (simp add: s l lower_append)
  then have "sublist (lower kw) (lower s)"
    by (simp only: sublist_appendI)
  then show "str_in (lower kw) (lower s)"
    by (simp only: str_in_sublist)
qed

lemma keyword_count_hits: "keyword_count s = vocabulary_hits s"
  by (simp add: keyword_count_def vocabulary_hits_def str_in_lower_occurs)

text \<open>Every string \<open>title\<close> is applied to is ASCII.\<close>

lemma title_arguments_ascii:
  "\<forall>skill \<in> set skill_keywords. \<forall>c \<in> set skill. (of_char c :: nat) < 128"
  "\<forall>(position, keywords) \<in> set job_keywords.
     (\<forall>c \<in> set position. (of_char c :: nat) < 128)
     \<and> (\<forall>keyword \<in> set keywords. \<forall>c \<in> set keyword. (of_char c :: nat) < 128)"
  by code_simp+


section \<open>Properties of the score\<close>

lemma length_points_range: "10 \<le> length_points n \<and> length_points n \<le> 30"
  by (simp add: length_points_def)

lemma skill_points_range: "5 \<le> skill_points n \<and> skill_points n \<le> 25"
  by (simp add: skill_points_def)

lemma experience_points_range: "5 \<le> experience_points n \<and> experience_points n \<le> 25"
  by (simp add: experience_points_def)

lemma density_points_range: "5 \<le> density_points n \<and> density_points n \<le> 20"
  by (simp add: density_points_def)

lemma add_in_branches:
  "(if a then s + x else if b then s + y else s + z) = s + (if a then x else if b then y else z)"
  for s :: int
  by simp

lemma calculate_score_unclamped:
  "calculate_score text skills experiences =
     min (max (length_points (length (split text)) + skill_points (length skills)
               + experience_points (length experiences)
               + density_points (keyword_count text)) 0) 100"
  unfolding calculate_score_def Let_def length_points_def skill_points_def
      experience_points_def density_points_def add_in_branches
  by (simp only: add_0_left)

lemma factor_sum_range:
  "25 \<le> length_points a + skill_points b + experience_points c + density_points d"
  "length_points a + skill_points b + experience_points c + density_points d \<le> 100"
  using length_points_range [of a] skill_points_range [of b]
    experience_points_range [of c] density_points_range [of d]
  by linarith+

lemma calculate_score_sum:
  "calculate_score text skills experiences =
     length_points (length (split text)) + skill_points (length skills)
       + experience_points (length experiences) + density_points (keyword_count text)"
  using factor_sum_range [of "length (split text)" "length skills" "length experiences"
      "keyword_count text"]
  by (simp add: calculate_score_unclamped)

lemma calculate_score_counts:
  "calculate_score text skills experiences =
     length_points (word_count text) + skill_points (length skills)
       + experience_points (length experiences) + density_points (vocabulary_hits text)"
  by (simp only: calculate_score_sum length_split keyword_count_hits)

text \<open>
  C1. For every text, skills list and experiences list, \<open>calculate_score\<close> returns the sum
  of the four banded factors: the number of words of the text (30 if between 200 and 800,
  else 20 if above 100, else 10), the number of skills (25 if at least 10, else 15 if at
  least 5, else 5), the number of experiences (25 if at least 5, else 15 if at least 2,
  else 5) and the number of vocabulary terms that occur in the raw text as a substring,
  case ignored (20 if at least 15, else 10 if at least 8, else 5). The result lies in
  [0,100] and the final clamp leaves the sum unchanged.
\<close>

theorem calculate_score_banded_sum:
  "calculate_score text skills experiences =
     length_points (word_count text) + skill_points (length skills)
       + experience_points (length experiences) + density_points (vocabulary_hits text)
   \<and> 0 \<le> calculate_score text skills experiences
   \<and> calculate_score text skills experiences \<le> 100"
  using factor_sum_range [of "word_count text" "length skills" "length experiences"
      "vocabulary_hits text"]
  by (simp add: calculate_score_counts)

theorem calculate_score_banded_sum_witness:
  "word_count (concat (replicate 96 ''r '') @ ''python java sql html css react ruby php'') = 104
   \<and> vocabulary_hits (concat (replicate 96 ''r '') @ ''python java sql html css react ruby php'') = 9
   \<and> calculate_score (concat (replicate 96 ''r '') @ ''python java sql html css react ruby php'')
        [''Python'', ''Java'', ''Sql'', ''R'', ''Html''] [''Built tools'', ''Led a team''] = 60"
proof -
  let ?t = "concat (replicate 96 ''r '') @ ''python java sql html css react ruby php''"
  have w: "word_count ?t = 104"
    by code_simp
  have "keyword_count ?t = 9"
    by code_simp
  then have k: "vocabulary_hits ?t = 9"
    by (simp only: keyword_count_hits)
  have "length_points 104 + skill_points (length [''Python'', ''Java'', ''Sql'', ''R'', ''Html''])
        + experience_points (length [''Built tools'', ''Led a team'']) + density_points 9 = 60"
    by (simp add: length_points_def skill_points_def experience_points_def density_points_def)
  then show ?thesis
    using w k calculate_score_banded_sum [of ?t
        "[''Python'', ''Java'', ''Sql'', ''R'', ''Html'']" "[''Built tools'', ''Led a team'']"]
    by simp
qed

text \<open>
  C10. For every text, skills list and experiences list, \<open>calculate_score\<close> returns at
  least 25: the four factors contribute at least 10, 5, 5 and 5 points, so the score lies
  in [25,100] and the lower bound 0 of the clamp is never the value returned.
\<close>

theorem calculate_score_at_least_25:
  "10 \<le> length_points (length (split text))
   \<and> 5 \<le> skill_points (length skills)
   \<and> 5 \<le> experience_points (length experiences)
   \<and> 5 \<le> density_points (keyword_count text)
   \<and> 25 \<le> calculate_score text skills experiences
   \<and> calculate_score text skills experiences \<le> 100
   \<and> calculate_score text skills experiences \<noteq> 0"
  using factor_sum_range [of "length (split text)" "length skills" "length experiences"
      "keyword_count text"]
    length_points_range [of "length (split text)"] skill_points_range [of "length skills"]
    experience_points_range [of "length experiences"]
    density_points_range [of "keyword_count text"]
  by (simp add: calculate_score_sum)

theorem calculate_score_at_least_25_witness:
  "calculate_score [] [] [] = 25"
proof -
  have "length_points (length (split [])) + skill_points (length ([] :: string list))
          + experience_points (length ([] :: string list))
          + density_points (keyword_count []) = 25"
    by code_simp
  then have "calculate_score [] [] [] \<le> 25"
    by (simp add: calculate_score_sum)
  then show ?thesis
    using calculate_score_at_least_25 [of "[]" "[]" "[]"] by simp
qed

section \<open>The deduplication and experience loops\<close>


lemma first_occurrences_snoc:
  "first_occurrences (xs @ [x]) = first_occurrences xs @ (if x \<in> set xs then [] else [x])"
proof -
  have a: "filter (\<lambda>i. (xs @ [x]) ! i \<notin> set (take i (xs @ [x]))) [0..<length xs]
         = filter (\<lambda>i. xs ! i \<notin> set (take i xs)) [0..<length xs]"
    by (rule filter_cong) (auto simp: nth_append)
  have b: "map (\<lambda>i. (xs @ [x]) ! i) (filter (\<lambda>i. xs ! i \<notin> set (take i xs)) [0..<length xs])
         = map (\<lambda>i. xs ! i) (filter (\<lambda>i. xs ! i \<notin> set (take i xs)) [0..<length xs])"
    by (rule map_cong) (auto simp: nth_append)
  have "first_occurrences (xs @ [x])
      = map (\<lambda>i. (xs @ [x]) ! i)
          (filter (\<lambda>i. (xs @ [x]) ! i \<notin> set (take i (xs @ [x]))) ([0..<length xs] @ [length xs]))"
    by (simp add: first_occurrences_def)
  also have "\<dots> = map (\<lambda>i. (xs @ [x]) ! i)
                     (filter (\<lambda>i. (xs @ [x]) ! i \<notin> set (take i (xs @ [x]))) [0..<length xs])
                 @ map (\<lambda>i. (xs @ [x]) ! i)
                     (filter (\<lambda>i. (xs @ [x]) ! i \<notin> set (take i (xs @ [x]))) [length xs])"
    by (simp only: filter_append map_append)
  also have "\<dots> = first_occurrences xs
                 @ map (\<lambda>i. (xs @ [x]) ! i)
                     (filter (\<lambda>i. (xs @ [x]) ! i \<notin> set (take i (xs @ [x]))) [length xs])"
    by (simp only: a b first_occurrences_def)
  also have "\<dots> = first_occurrences xs @ (if x \<in> set xs then [] else [x])"
    by simp
  finally show ?thesis .
qed

lemma first_occurrences_Nil: "first_occurrences [] = []"
  by (simp add: first_occurrences_def)

lemma set_first_occurrences: "set (first_occurrences xs) = set xs"
  by (induction xs rule: rev_induct) (auto simp: first_occurrences_snoc first_occurrences_Nil)

lemma distinct_first_occurrences: "distinct (first_occurrences xs)"
  by (induction xs rule: rev_induct)
     (auto simp: first_occurrences_snoc first_occurrences_Nil set_first_occurrences)

lemma dedup_loop_prefix:
  "dedup_loop (set p) (first_occurrences p) xs = first_occurrences (p @ xs)"
proof (induction xs arbitrary: p)
  case Nil
  then show ?case by simp
next
  case (Cons x xs)
  have "set (p @ [x]) = insert x (set p)" by simp
  then show ?case
    using Cons.IH [of "p @ [x]"]
    by (auto simp: first_occurrences_snoc insert_absorb)
qed

lemma dedup_loop_first_occurrences: "dedup_loop {} [] xs = first_occurrences xs"
  using dedup_loop_prefix [of "[]" xs] by (simp add: first_occurrences_Nil)

lemma keeps_line_nonempty: "keeps_line line \<Longrightarrow> strip line \<noteq> []"
  by (auto simp: keeps_line_def lower_def)

lemma experiences_loop_filter:
  "experiences_loop acc ls = acc @ map (\<lambda>l. capitalize_first (strip l)) (filter keeps_line ls)"
proof (induction ls arbitrary: acc)
  case Nil
  then show ?case by simp
next
  case (Cons l ls)
  have eq: "(length (lower (strip l)) > 10
             \<and> list_ex (\<lambda>verb. str_in verb (lower (strip l))) action_verbs) = keeps_line l"
    by (simp add: keeps_line_def list_ex_iff str_in_sublist)
  have step: "experiences_loop acc (l # ls) =
      (if keeps_line l
       then (case strip l of
               [] \<Rightarrow> experiences_loop acc ls
             | c # cs \<Rightarrow> experiences_loop (acc @ [upper_char c @ cps cs]) ls)
       else experiences_loop acc ls)"
    by (simp only: experiences_loop.simps Let_def eq)
  show ?case
  proof (cases "keeps_line l")
    case True
    then obtain c cs where s: "strip l = c # cs"
      using keeps_line_nonempty by (cases "strip l") auto
    show ?thesis using True s Cons.IH
      by (simp add: step capitalize_first_def del: experiences_loop.simps)
  next
    case False
    then show ?thesis using Cons.IH
      by (simp add: step del: experiences_loop.simps)
  qed
qed


section \<open>Fallback preprocessing\<close>


lemma lower_char_not_upper: "\<not> isupper (lower_char c)"
  by (auto simp: lower_char_def isupper_def Let_def of_char_of)

lemma isspace_not_upper: "isspace c \<Longrightarrow> \<not> isupper c"
  by (auto simp: isspace_def isupper_def Let_def)

lemma isspace_space: "isspace (CHR '' '')"
  by (simp add: isspace_def)

lemma lower_no_upper: "\<forall>c \<in> set s. \<not> isupper c \<Longrightarrow> lower s = s"
  by (induction s) (auto simp: lower_def lower_char_def)

lemma set_sub_ws: "set (sub_ws s) \<subseteq> insert (CHR '' '') (set s)"
proof (induction s rule: sub_ws.induct)
  case 1
  then show ?case by simp
next
  case (2 c cs)
  show ?case
  proof (cases "isspace c")
    case True
    have "set (dropWhile isspace cs) \<subseteq> set cs" by (rule set_dropWhileD[THEN subsetI])
    then show ?thesis using True 2 by auto
  next
    case False
    then show ?thesis using 2 by auto
  qed
qed

lemma set_strip: "set (strip s) \<subseteq> set s"
proof -
  have "set (rev (dropWhile isspace (rev (dropWhile isspace s)))) \<subseteq> set (dropWhile isspace s)"
    using set_dropWhileD [of _ isspace "rev (dropWhile isspace s)"] by auto
  also have "\<dots> \<subseteq> set s"
    using set_dropWhileD [of _ isspace s] by auto
  finally show ?thesis by (simp add: strip_def rstrip_def lstrip_def)
qed

lemma ws_normal_sub_ws: "ws_normal (sub_ws s)"
proof (induction s rule: sub_ws.induct)
  case 1
  then show ?case by simp
next
  case (2 c cs)
  show ?case
  proof (cases "isspace c")
    case True
    have step: "sub_ws (c # cs) = CHR '' '' # sub_ws (dropWhile isspace cs)"
      using True by simp
    have ih: "ws_normal (sub_ws (dropWhile isspace cs))"
      using True by (rule "2.IH"(1))
    show ?thesis
    proof (cases "dropWhile isspace cs")
      case Nil
      show ?thesis unfolding step Nil by simp
    next
      case (Cons d ds)
      then have "\<not> isspace d"
        using hd_dropWhile [of isspace cs] by auto
      then show ?thesis using ih unfolding step Cons by simp
    qed
  next
    case False
    then show ?thesis using 2 by simp
  qed
qed

lemma sub_ws_ws_normal: "ws_normal s \<Longrightarrow> sub_ws s = s"
proof (induction s rule: sub_ws.induct)
  case 1
  then show ?case by simp
next
  case (2 c cs)
  show ?case
  proof (cases "isspace c")
    case True
    with "2.prems" have c: "c = CHR '' ''" and n: "ws_normal cs"
      and h: "(case cs of [] \<Rightarrow> True | d # ds \<Rightarrow> \<not> isspace d)" by auto
    from h have d: "dropWhile isspace cs = cs" by (cases cs) auto
    show ?thesis using True c n d "2.IH"(1) by simp
  next
    case False
    then show ?thesis using 2 by simp
  qed
qed

lemma ws_normal_dropWhile: "ws_normal s \<Longrightarrow> ws_normal (dropWhile P s)"
  by (induction s) auto

lemma ws_normal_append_left: "ws_normal (xs @ ys) \<Longrightarrow> ws_normal xs"
proof (induction xs)
  case Nil
  then show ?case by simp
next
  case (Cons x xs)
  then show ?case by (cases xs) auto
qed

lemma rstrip_prefix: "\<exists>ys. s = rstrip s @ ys"
proof -
  have "rev s = takeWhile isspace (rev s) @ dropWhile isspace (rev s)" by simp
  then have "rev (rev s) = rev (takeWhile isspace (rev s) @ dropWhile isspace (rev s))"
    by (rule arg_cong)
  then have "s = rev (dropWhile isspace (rev s)) @ rev (takeWhile isspace (rev s))"
    by (simp only: rev_rev_ident rev_append)
  then show ?thesis unfolding rstrip_def by blast
qed

lemma ws_normal_rstrip: "ws_normal s \<Longrightarrow> ws_normal (rstrip s)"
  using rstrip_prefix [of s] ws_normal_append_left by metis

lemma ws_normal_strip: "ws_normal s \<Longrightarrow> ws_normal (strip s)"
  by (simp add: strip_def lstrip_def ws_normal_rstrip ws_normal_dropWhile)

lemma rstrip_Cons_nonspace: "\<not> isspace c \<Longrightarrow> rstrip (c # cs) = c # rstrip cs"
  by (simp add: rstrip_def dropWhile_append3)

lemma lstrip_rstrip_lstrip: "lstrip (rstrip (lstrip s)) = rstrip (lstrip s)"
proof (cases "lstrip s")
  case Nil
  show ?thesis unfolding Nil by (simp add: rstrip_def lstrip_def)
next
  case (Cons d ds)
  then have "\<not> isspace d"
    using hd_dropWhile [of isspace s] by (auto simp: lstrip_def)
  then show ?thesis using Cons by (simp add: rstrip_Cons_nonspace) (simp add: lstrip_def)
qed

lemma rstrip_idem: "rstrip (rstrip s) = rstrip s"
  by (simp add: rstrip_def)

lemma strip_idem: "strip (strip s) = strip s"
  by (simp add: strip_def lstrip_rstrip_lstrip rstrip_idem)

lemma preprocess_fallback:
  "nlp self = None \<Longrightarrow> preprocess_text self text = strip (sub_ws (lower text))"
  by (simp add: preprocess_text_def)


section \<open>The shape of the recommendation list\<close>


lemma append_in_branch: "(if c then r @ [x] else r) = r @ (if c then [x] else [])"
  by simp

lemma fallback_when_empty: "(if r = [] then r @ f else r) = (if r = [] then f else r)"
  by simp

lemma job_step:
  "(case job_position of
               None \<Rightarrow> r
             | Some jp \<Rightarrow>
                 (if jp = [] then r
                  else (case map_of job_keywords jp of
                          None \<Rightarrow> r
                        | Some keywords \<Rightarrow>
                            (let missing_keywords =
                                   map title
                                     (filter (\<lambda>keyword. \<not> str_in (lower keyword) (lower text))
                                        keywords)
                             in if missing_keywords \<noteq> []
                                then r @ [keywords_tip jp missing_keywords]
                                else r)))) = r @ job_tips text job_position"
  by (simp add: job_tips_def Let_def split: option.splits)

lemma generate_recommendations_rule_tips:
  "generate_recommendations text skills experiences job_position =
     (if rule_tips text skills experiences job_position = [] then fallback_tips
      else rule_tips text skills experiences job_position)"
  unfolding generate_recommendations_def rule_tips_def Let_def
  apply (simp only: job_step [unfolded Let_def])
  apply (simp only: append_in_branch)
  apply (simp only: fallback_when_empty)
  apply (simp only: append_Nil append_assoc)
  done


section \<open>Properties of experience extraction, skill extraction and preprocessing\<close>

text \<open>
  C2. For every text, \<open>extract_experiences\<close> returns at most 10 entries: the lines of the
  text, in order, whose trimmed lower-cased copy is longer than 10 characters and contains
  an action verb as a substring, each emitted trimmed and with its first character
  upper-cased, cut to the first 10. (In the sample below the second line is long and has
  no verb, the third has a verb and is short, and the fourth starts with a no-break space
  and a lower-case e with acute accent.)
\<close>

theorem extract_experiences_filter:
  "length (extract_experiences text) \<le> 10
   \<and> extract_experiences text =
       take 10 (map (\<lambda>line. capitalize_first (strip line))
                  (filter keeps_line (split_on (CHR 0x0A) text)))"
  by (simp add: extract_experiences_def experiences_loop_filter)

theorem extract_experiences_filter_witness:
  "extract_experiences
     (''  led a team of five  \<newline>hobbies and sports\<newline>led team\<newline>''
        @ CHR 0xA0 # CHR 0xE9 # ''quipe managed by me'')
     = [cps ''Led a team of five'', 201 # cps ''quipe managed by me'']"
proof -
  have "take 10 (map (\<lambda>line. capitalize_first (strip line))
          (filter keeps_line
             (split_on (CHR 0x0A)
                (''  led a team of five  \<newline>hobbies and sports\<newline>led team\<newline>''
                   @ CHR 0xA0 # CHR 0xE9 # ''quipe managed by me''))))
        = [cps ''Led a team of five'', 201 # cps ''quipe managed by me'']"
    by code_simp
  then show ?thesis
    using extract_experiences_filter
      [of "''  led a team of five  \<newline>hobbies and sports\<newline>led team\<newline>''
             @ CHR 0xA0 # CHR 0xE9 # ''quipe managed by me''"]
    by simp
qed

text \<open>
  C6. For every text and every behaviour of the entity pipeline, \<open>extract_skills\<close> returns
  at most 20 entries, no two of them the same string: it is the first 20 of the first
  occurrences in \<open>found_skills\<close>, in order.
\<close>

theorem extract_skills_first_occurrences:
  "length (extract_skills self text) \<le> 20
   \<and> distinct (extract_skills self text)
   \<and> extract_skills self text = take 20 (first_occurrences (found_skills self text))"
  by (simp add: extract_skills_def dedup_loop_first_occurrences distinct_first_occurrences)

theorem extract_skills_first_occurrences_witness:
  "extract_skills ner_analyzer ''PYTHON and more PYTHON'' = [''Python'', ''R'', ''PYTHON'']"
proof -
  have "take 20 (first_occurrences (found_skills ner_analyzer ''PYTHON and more PYTHON''))
        = [''Python'', ''R'', ''PYTHON'']"
    by code_simp
  then show ?thesis
    using extract_skills_first_occurrences [of ner_analyzer "''PYTHON and more PYTHON''"]
    by simp
qed

text \<open>
  C9. Without the spaCy model, \<open>preprocess_text\<close> (lower-case, collapse each run of
  whitespace to one space, trim) is idempotent.
\<close>

theorem preprocess_text_fallback_idempotent:
  assumes "nlp self = None"
  shows "preprocess_text self (preprocess_text self text) = preprocess_text self text"
proof -
  let ?u = "strip (sub_ws (lower text))"
  have "\<forall>c \<in> set (lower text). \<not> isupper c"
    by (auto simp: lower_def lower_char_not_upper)
  moreover have "set ?u \<subseteq> insert (CHR '' '') (set (lower text))"
    using set_strip [of "sub_ws (lower text)"] set_sub_ws [of "lower text"] by blast
  ultimately have "\<forall>c \<in> set ?u. \<not> isupper c"
    using isspace_not_upper [OF isspace_space] by auto
  then have l: "lower ?u = ?u" by (rule lower_no_upper)
  have "ws_normal ?u" by (simp add: ws_normal_strip ws_normal_sub_ws)
  then have w: "sub_ws ?u = ?u" by (rule sub_ws_ws_normal)
  show ?thesis
    by (simp add: preprocess_fallback [OF assms] l w strip_idem)
qed

theorem preprocess_text_fallback_idempotent_witness:
  "nlp bare_analyzer = None
   \<and> preprocess_text bare_analyzer ''  Senior   Data\<newline>Engineer '' = ''senior data engineer''
   \<and> preprocess_text bare_analyzer
        (preprocess_text bare_analyzer ''  Senior   Data\<newline>Engineer '') = ''senior data engineer''"
proof -
  have n: "nlp bare_analyzer = None" by (simp add: bare_analyzer_def)
  have e: "preprocess_text bare_analyzer ''  Senior   Data\<newline>Engineer '' = ''senior data engineer''"
    by code_simp
  show ?thesis
    using n e preprocess_text_fallback_idempotent [OF n, of "''  Senior   Data\<newline>Engineer ''"]
    by simp
qed

text \<open>
  C4. The line \<open>Successfully managed a team of five\<close> is returned by
  \<open>extract_experiences\<close> although it does not begin with an action verb.
\<close>

theorem extract_experiences_verb_not_first:
  "extract_experiences ''Successfully managed a team of five''
     = [cps ''Successfully managed a team of five'']
   \<and> \<not> begins_with_action_verb ''Successfully managed a team of five''"
  by code_simp


section \<open>Which tips a recommendation list holds\<close>

lemma fixed_tips_not_fallback:
  "skills_tip \<notin> set fallback_tips" "achievements_tip \<notin> set fallback_tips"
  "verbs_tip \<notin> set fallback_tips" "metrics_tip \<notin> set fallback_tips"
  "summary_tip \<notin> set fallback_tips" "keywords_tip jp missing \<notin> set fallback_tips"
  by (simp_all add: fallback_tips_def skills_tip_def achievements_tip_def verbs_tip_def
      metrics_tip_def summary_tip_def keywords_tip_def)

lemma verbs_tip_unlike_others:
  "verbs_tip \<noteq> skills_tip" "verbs_tip \<noteq> achievements_tip" "verbs_tip \<noteq> metrics_tip"
  "verbs_tip \<noteq> summary_tip" "verbs_tip \<noteq> keywords_tip jp missing"
  by (simp_all add: skills_tip_def achievements_tip_def verbs_tip_def
      metrics_tip_def summary_tip_def keywords_tip_def)

lemma set_job_tips: "x \<in> set (job_tips text job_position) \<Longrightarrow> \<exists>jp missing. x = keywords_tip jp missing"
  by (auto simp: job_tips_def Let_def split: option.splits if_splits)

lemma rule_tips_not_fallback:
  assumes "x \<in> set (rule_tips text skills experiences job_position)"
  shows "x \<notin> set fallback_tips"
proof -
  from assms consider "x = skills_tip" | "x = achievements_tip" | "x = verbs_tip"
    | "x = metrics_tip" | "x \<in> set (job_tips text job_position)" | "x = summary_tip"
    unfolding rule_tips_def by (auto split: if_splits)
  then show ?thesis
    using fixed_tips_not_fallback set_job_tips by cases blast+
qed

lemma verbs_tip_in_rule_tips:
  "verbs_tip \<in> set (rule_tips text skills experiences job_position)
   \<longleftrightarrow> count_hits weak_action_verbs experiences > count_hits strong_action_verbs experiences"
proof -
  have "verbs_tip \<notin> set (job_tips text job_position)"
    using set_job_tips verbs_tip_unlike_others(5) by blast
  then show ?thesis
    unfolding rule_tips_def using verbs_tip_unlike_others(1-4) by auto
qed

lemma count_hits_sum:
  "count_hits verbs experiences =
     (\<Sum>exp\<leftarrow>experiences. length (filter (\<lambda>verb. str_in verb (lower exp)) verbs))"
proof -
  have a: "sum_list (concat (map (\<lambda>verb. if P verb then [1::nat] else []) vs)) = length (filter P vs)" for P and vs :: "string list"
    by (induction vs) auto
  show ?thesis
    unfolding count_hits_def by (induction experiences) (auto simp: a)
qed

lemma job_tips_unknown:
  assumes "jp \<notin> {''software-engineer'', ''data-scientist'', ''web-developer'',
                  ''product-manager'', ''ui-ux-designer''}"
  shows "job_tips text (Some jp) = []"
proof -
  have "map_of job_keywords jp = None"
    using assms by (simp add: job_keywords_def)
  then show ?thesis by (simp add: job_tips_def)
qed

lemma job_tips_None: "job_tips text None = []"
  by (simp add: job_tips_def)


section \<open>Properties of skill deduplication and of the recommendations\<close>

lemma first_occurrences_distinct: "distinct xs \<Longrightarrow> first_occurrences xs = xs"
  by (induction xs rule: rev_induct) (auto simp: first_occurrences_snoc first_occurrences_Nil)

lemma first_occurrences_append:
  "first_occurrences (xs @ ys) =
     first_occurrences xs @ filter (\<lambda>y. y \<notin> set xs) (first_occurrences ys)"
proof (induction ys rule: rev_induct)
  case Nil
  then show ?case by (simp add: first_occurrences_Nil)
next
  case (snoc z zs)
  have "first_occurrences (xs @ zs @ [z]) = first_occurrences ((xs @ zs) @ [z])" by simp
  also have "\<dots> = first_occurrences (xs @ zs) @ (if z \<in> set (xs @ zs) then [] else [z])"
    by (rule first_occurrences_snoc)
  finally show ?case
    using snoc.IH by (auto simp: first_occurrences_snoc)
qed

lemma distinct_skill_keys: "distinct (map (\<lambda>skill. skill_key (title skill)) skill_keywords)"
  by code_simp

lemma found_skills_parts:
  "found_skills self text =
     keyword_matches (lower (preprocess_text self text)) @ ner_skills self text"
  by (simp add: found_skills_def ner_skills_def Let_def split: option.splits sum.splits)

lemma distinct_keyword_matches: "distinct (map skill_key (keyword_matches processed_text))"
proof -
  have "distinct (map (\<lambda>skill. skill_key (title skill))
          (filter (\<lambda>skill. str_in (lower skill) processed_text) skill_keywords))"
    using distinct_skill_keys by (rule distinct_map_filter)
  then show ?thesis by (simp add: keyword_matches_def comp_def)
qed

lemma extract_skills_parts:
  "extract_skills self text =
     take 20 (keyword_matches (lower (preprocess_text self text))
              @ filter (\<lambda>y. y \<notin> set (keyword_matches (lower (preprocess_text self text))))
                  (first_occurrences (ner_skills self text)))"
proof -
  have "distinct (keyword_matches (lower (preprocess_text self text)))"
    using distinct_keyword_matches [of "lower (preprocess_text self text)"]
    by (simp add: distinct_map)
  then show ?thesis
    by (simp add: extract_skills_def dedup_loop_first_occurrences found_skills_parts
        first_occurrences_append first_occurrences_distinct)
qed

lemma later_duplicate_from_rest:
  assumes d: "distinct (map f kw)"
    and ij: "i < j" and j: "j < length (take n (kw @ rest))"
    and eq: "f (take n (kw @ rest) ! i) = f (take n (kw @ rest) ! j)"
  shows "take n (kw @ rest) ! j \<in> set rest"
proof -
  have jn: "j < n" and jl: "j < length (kw @ rest)"
    using j by simp_all
  have tj: "take n (kw @ rest) ! j = (kw @ rest) ! j"
    using jn by (rule nth_take)
  have ti: "take n (kw @ rest) ! i = (kw @ rest) ! i"
    using jn ij by (intro nth_take) simp
  show ?thesis
  proof (cases "j < length kw")
    case True
    then have i: "i < length kw" using ij by simp
    have "f (kw ! i) = f (kw ! j)"
      using eq i True unfolding ti tj by (simp add: nth_append)
    then have m: "map f kw ! i = map f kw ! j"
      using i True by simp
    have "(map f kw ! i = map f kw ! j) = (i = j)"
      using d i True by (intro nth_eq_iff_index_eq) simp_all
    then have "i = j" using m by blast
    then show ?thesis using ij by simp
  next
    case False
    then have "(kw @ rest) ! j = rest ! (j - length kw)"
      by (simp add: nth_append)
    moreover have "j - length kw < length rest"
      using False jl by auto
    ultimately show ?thesis unfolding tj by simp
  qed
qed

text \<open>
  C3 (amended). \<open>extract_skills\<close> deduplicates by exact string identity: no two entries of
  the returned list are the same string. Whenever two entries are equal after trimming and
  case-folding, the later of the two was contributed by the entity pipeline: it is one of
  its organisations and no vocabulary match. The vocabulary matches in the list are thus
  pairwise distinct after trimming and case-folding.
\<close>

theorem extract_skills_exact_dedup:
  "distinct (extract_skills self text)
   \<and> (\<forall>i j. i < j \<and> j < length (extract_skills self text)
            \<and> skill_key (extract_skills self text ! i) = skill_key (extract_skills self text ! j)
          \<longrightarrow> extract_skills self text ! j \<in> set (ner_skills self text)
              \<and> extract_skills self text ! j
                    \<notin> set (keyword_matches (lower (preprocess_text self text))))"
proof (intro conjI allI impI)
  show "distinct (extract_skills self text)"
    by (simp add: extract_skills_def dedup_loop_first_occurrences distinct_first_occurrences)
next
  fix i j
  assume a: "i < j \<and> j < length (extract_skills self text)
            \<and> skill_key (extract_skills self text ! i) = skill_key (extract_skills self text ! j)"
  let ?kw = "keyword_matches (lower (preprocess_text self text))"
  let ?rest = "filter (\<lambda>y. y \<notin> set ?kw) (first_occurrences (ner_skills self text))"
  have "take 20 (?kw @ ?rest) ! j \<in> set ?rest"
    using a distinct_keyword_matches [of "lower (preprocess_text self text)"]
    by (intro later_duplicate_from_rest [where f = skill_key and i = i])
       (simp_all add: extract_skills_parts)
  then have "extract_skills self text ! j \<in> set ?rest"
    by (simp add: extract_skills_parts)
  then show "extract_skills self text ! j \<in> set (ner_skills self text)"
    and "extract_skills self text ! j \<notin> set ?kw"
    by (simp_all add: set_first_occurrences)
qed

theorem extract_skills_exact_dedup_witness:
  "(0::nat) < 1 \<and> 1 < length (extract_skills ner_analyzer ''PYTHON'')
   \<and> skill_key (extract_skills ner_analyzer ''PYTHON'' ! 0)
       = skill_key (extract_skills ner_analyzer ''PYTHON'' ! 1)
   \<and> extract_skills ner_analyzer ''PYTHON'' ! 1 \<in> set (ner_skills ner_analyzer ''PYTHON'')
   \<and> extract_skills ner_analyzer ''PYTHON'' = [''Python'', ''PYTHON'']"
proof -
  have e: "extract_skills ner_analyzer ''PYTHON'' = [''Python'', ''PYTHON'']"
    by code_simp
  have k: "skill_key ''Python'' = skill_key ''PYTHON''"
    by code_simp
  have h: "(0::nat) < 1 \<and> 1 < length (extract_skills ner_analyzer ''PYTHON'')
       \<and> skill_key (extract_skills ner_analyzer ''PYTHON'' ! 0)
           = skill_key (extract_skills ner_analyzer ''PYTHON'' ! 1)"
    by (simp add: e k)
  have "extract_skills ner_analyzer ''PYTHON'' ! 1 \<in> set (ner_skills ner_analyzer ''PYTHON'')"
    using extract_skills_exact_dedup [of ner_analyzer "''PYTHON''"] h by blast
  then show ?thesis using h e by simp
qed

text \<open>
  With the text \<open>PYTHON\<close> and an entity pipeline that returns \<open>PYTHON\<close> as an
  organisation, the result holds \<open>Python\<close> (from the vocabulary) and \<open>PYTHON\<close> (from the
  pipeline): equal after trimming and case-folding, and both kept.
\<close>

theorem extract_skills_case_duplicates:
  "\<not> distinct (map skill_key (extract_skills ner_analyzer ''PYTHON''))"
  by code_simp

text \<open>
  C5 (amended). The stronger-action-verbs tip is in the list that
  \<open>generate_recommendations\<close> returns if and only if the number of pairs of an experience
  line and a weak verb occurring in it exceeds the number of pairs of an experience line
  and a strong verb occurring in it: a line counts once for every listed verb it contains.
\<close>

theorem verbs_tip_iff_more_weak_hits:
  "verbs_tip \<in> set (generate_recommendations text skills experiences job_position)
   \<longleftrightarrow> (\<Sum>exp\<leftarrow>experiences. length (filter (\<lambda>verb. str_in verb (lower exp)) strong_action_verbs))
        < (\<Sum>exp\<leftarrow>experiences. length (filter (\<lambda>verb. str_in verb (lower exp)) weak_action_verbs))"
proof (cases "rule_tips text skills experiences job_position = []")
  case True
  then have "verbs_tip \<notin> set (rule_tips text skills experiences job_position)" by simp
  then have "\<not> count_hits weak_action_verbs experiences > count_hits strong_action_verbs experiences"
    using verbs_tip_in_rule_tips [of "text" skills experiences job_position] by blast
  then show ?thesis
    using True fixed_tips_not_fallback(3)
    by (simp add: generate_recommendations_rule_tips count_hits_sum)
next
  case False
  then show ?thesis
    using verbs_tip_in_rule_tips [of "text" skills experiences job_position]
    by (simp add: generate_recommendations_rule_tips count_hits_sum)
qed

theorem verbs_tip_iff_more_weak_hits_witness:
  "verbs_tip \<in> set (generate_recommendations ''Summary'' []
                       [''Helped and assisted the team I managed''] None)"
proof -
  have "(\<Sum>exp\<leftarrow>[''Helped and assisted the team I managed''].
           length (filter (\<lambda>verb. str_in verb (lower exp)) strong_action_verbs))
        < (\<Sum>exp\<leftarrow>[''Helped and assisted the team I managed''].
           length (filter (\<lambda>verb. str_in verb (lower exp)) weak_action_verbs))"
    by code_simp
  then show ?thesis
    using verbs_tip_iff_more_weak_hits [of "''Summary''" "[]"
        "[''Helped and assisted the team I managed'']" None]
    by simp
qed

text \<open>
  One experience line with two weak verbs and one strong verb: one line on each side, yet
  the tip is appended, since the counts are 2 and 1.
\<close>

theorem verbs_tip_counts_pairs_not_lines:
  "\<not> (verbs_tip \<in> set (generate_recommendations ''Summary'' []
                          [''Helped and assisted the team I managed''] None)
      \<longleftrightarrow> lines_with weak_action_verbs [''Helped and assisted the team I managed'']
           > lines_with strong_action_verbs [''Helped and assisted the team I managed''])"
  by code_simp

text \<open>
  C7. For every text, skills, experiences and job position, \<open>generate_recommendations\<close>
  returns a non-empty list. When no rule contributes a tip it returns exactly the three
  fallback tips, in their order; otherwise it returns the tips of the rules, none of which
  is a fallback tip.
\<close>

theorem generate_recommendations_fallback:
  "generate_recommendations text skills experiences job_position \<noteq> []
   \<and> (rule_tips text skills experiences job_position = [] \<longrightarrow>
        generate_recommendations text skills experiences job_position =
          [''Review your resume for typos and grammatical errors.'',
           ''Ensure consistent formatting throughout the document.'',
           ''Tailor your resume for each job application.''])
   \<and> (rule_tips text skills experiences job_position \<noteq> [] \<longrightarrow>
        generate_recommendations text skills experiences job_position =
          rule_tips text skills experiences job_position
        \<and> set (generate_recommendations text skills experiences job_position)
            \<inter> set fallback_tips = {})"
proof -
  have "set (rule_tips text skills experiences job_position) \<inter> set fallback_tips = {}"
    using rule_tips_not_fallback by blast
  moreover have "fallback_tips \<noteq> []" by (simp add: fallback_tips_def)
  ultimately show ?thesis
    by (simp add: generate_recommendations_rule_tips) (simp add: fallback_tips_def)
qed

theorem generate_recommendations_fallback_witness:
  "generate_recommendations ''Summary''
     [''A'', ''B'', ''C'', ''D'', ''E'', ''F'', ''G'', ''H'']
     [''Managed 5%'', ''Led 3%'', ''Created $1'', ''Developed $2''] None =
     [''Review your resume for typos and grammatical errors.'',
      ''Ensure consistent formatting throughout the document.'',
      ''Tailor your resume for each job application.'']
   \<and> generate_recommendations ''Summary'' [] [] None = [skills_tip, achievements_tip]"
proof -
  have a: "rule_tips ''Summary''
     [''A'', ''B'', ''C'', ''D'', ''E'', ''F'', ''G'', ''H'']
     [''Managed 5%'', ''Led 3%'', ''Created $1'', ''Developed $2''] None = []"
    by code_simp
  have b: "rule_tips ''Summary'' [] [] None = [skills_tip, achievements_tip]"
    by code_simp
  show ?thesis
    using a b
      generate_recommendations_fallback [of "''Summary''"
        "[''A'', ''B'', ''C'', ''D'', ''E'', ''F'', ''G'', ''H'']"
        "[''Managed 5%'', ''Led 3%'', ''Created $1'', ''Developed $2'']" None]
      generate_recommendations_fallback [of "''Summary''" "[]" "[]" None]
    by simp
qed

text \<open>
  C8. For every job-position tag outside software-engineer, data-scientist, web-developer,
  product-manager and ui-ux-designer, \<open>generate_recommendations\<close> returns what it returns
  when no job position is given: no keyword-gap tip, and no error.
\<close>

theorem generate_recommendations_unknown_tag:
  assumes "jp \<notin> {''software-engineer'', ''data-scientist'', ''web-developer'',
                  ''product-manager'', ''ui-ux-designer''}"
  shows "generate_recommendations text skills experiences (Some jp) =
         generate_recommendations text skills experiences None"
  by (simp add: generate_recommendations_rule_tips rule_tips_def
      job_tips_unknown [OF assms] job_tips_None)

theorem generate_recommendations_unknown_tag_witness:
  "''unknown-tag'' \<notin> {''software-engineer'', ''data-scientist'', ''web-developer'',
                        ''product-manager'', ''ui-ux-designer''}
   \<and> generate_recommendations ''Summary'' [] [] (Some ''unknown-tag'') =
       generate_recommendations ''Summary'' [] [] None"
proof -
  have h: "''unknown-tag'' \<notin> {''software-engineer'', ''data-scientist'', ''web-developer'',
                        ''product-manager'', ''ui-ux-designer''}"
    by simp
  show ?thesis
    using h generate_recommendations_unknown_tag [OF h, of "''Summary''" "[]" "[]"]
    by simp
qed

end
